theory Spec2Isabelle
  imports Complex_Main
begin

section \<open>The policy-gradient agent (cs285/agents/pg_agent.py, cs285/networks/critics.py)\<close>

text \<open>
  NumPy and PyTorch floating-point numbers are modelled as the reals: every arithmetic
  operation of the source is kept, in the order the source performs it, but rounding,
  overflow and the non-finite values are not modelled. The loop of generalized advantage
  estimation is written for any number type, so that it can also be run on the type
  \<open>ieee\<close> below, which adds the infinities and NaN to the reals. One-dimensional arrays
  and Python lists are HOL lists. Exceptions are values of the type \<open>error\<close>.
\<close>

datatype error = AssertionError | IndexError | ValueError | TypeError

subsection \<open>The agent object\<close>

text \<open>
  The attributes that \<open>PGAgent.__init__\<close> stores. \<open>'p\<close> is the state of the policy
  network (its parameters and optimizer), \<open>'c\<close> that of the value network.
  The attribute \<open>baseline_gradient_steps\<close> is assigned only when \<open>use_baseline\<close> holds
  and is read only when \<open>critic\<close> is not \<open>None\<close>; where it is not assigned the field
  is \<open>None\<close>.
\<close>

record ('p, 'c) PGAgent =
  actor :: 'p
  critic :: "'c option"
  baseline_gradient_steps :: "int option"
  gamma :: real
  use_reward_to_go :: bool
  gae_lambda :: "real option"
  normalize_advantages :: bool

subsection \<open>Monte Carlo estimation of the Q function\<close>

text \<open>Python's built-in \<open>sum\<close>: start at 0 and add the items from left to right.\<close>

definition py_sum :: "real list \<Rightarrow> real" where
  "py_sum xs = foldl (+) 0 xs"

text \<open>
  \<open>_discounted_return\<close>: the list comprehension over \<open>range(len(rewards))\<close>, its sum, and
  \<open>[total_return] * len(rewards)\<close>.
\<close>

definition discounted_return :: "('p, 'c) PGAgent \<Rightarrow> real list \<Rightarrow> real list" where
  "discounted_return self rewards =
     (let total_return =
            py_sum (map (\<lambda>t. gamma self ^ t * rewards ! t) [0..<length rewards])
      in replicate (length rewards) total_return)"

text \<open>
  \<open>_discounted_reward_to_go\<close>: the inner loop runs \<open>t_prime\<close> over \<open>range(t, n)\<close> and
  adds to \<open>reward_to_go\<close>, which starts at 0; the outer loop runs \<open>t\<close> over \<open>range(n)\<close>
  and stores the result at index \<open>t\<close> of a list that starts as \<open>[0] * n\<close>.
\<close>

definition reward_to_go_at :: "real \<Rightarrow> real list \<Rightarrow> nat \<Rightarrow> real" where
  "reward_to_go_at g rewards t =
     fold (\<lambda>t_prime reward_to_go. reward_to_go + g ^ (t_prime - t) * rewards ! t_prime)
          [t..<length rewards] 0"

definition discounted_reward_to_go :: "('p, 'c) PGAgent \<Rightarrow> real list \<Rightarrow> real list" where
  "discounted_reward_to_go self rewards =
     (let n = length rewards
      in fold (\<lambda>t discounted_rewards_to_go.
                 discounted_rewards_to_go[t := reward_to_go_at (gamma self) rewards t])
              [0..<n] (replicate n 0))"

text \<open>\<open>_calculate_q_vals\<close>: one list of Q-values for each trajectory's rewards.\<close>

definition calculate_q_vals :: "('p, 'c) PGAgent \<Rightarrow> real list list \<Rightarrow> real list list" where
  "calculate_q_vals self rewards =
     (if \<not> use_reward_to_go self then map (discounted_return self) rewards
      else map (discounted_reward_to_go self) rewards)"

subsection \<open>Arrays with a shape\<close>

text \<open>
  A tensor or NumPy array of reals: its shape and its entries in row-major order.
  \<open>squeeze\<close> removes every dimension of size 1, as \<open>torch.Tensor.squeeze\<close> does.
  The conversions \<open>ptu.from_numpy\<close> and \<open>ptu.to_numpy\<close> keep shape and entries.
\<close>

record ndarray =
  shape :: "nat list"
  data :: "real list"

definition squeeze :: "ndarray \<Rightarrow> ndarray" where
  "squeeze x = x\<lparr>shape := filter (\<lambda>d. d \<noteq> 1) (shape x)\<rparr>"

text \<open>Indexing a one-dimensional array by an index of \<open>range\<close>: IndexError out of bounds.\<close>

definition getitem :: "'x list \<Rightarrow> nat \<Rightarrow> error + 'x" where
  "getitem xs i = (if i < length xs then Inr (xs ! i) else Inl IndexError)"

text \<open>
  \<open>np.concatenate\<close> of a sequence of arrays along the first axis; an empty sequence
  raises ValueError ("need at least one array to concatenate").
\<close>

definition concatenate :: "'x list list \<Rightarrow> error + 'x list" where
  "concatenate arrays = (if arrays = [] then Inl ValueError else Inr (concat arrays))"

text \<open>\<open>np.mean\<close> and \<open>np.std\<close> (population standard deviation) of a one-dimensional array.\<close>

definition np_mean :: "real list \<Rightarrow> real" where
  "np_mean xs = sum_list xs / real (length xs)"

definition np_std :: "real list \<Rightarrow> real" where
  "np_std xs = sqrt (np_mean (map (\<lambda>x. \<bar>x - np_mean xs\<bar> ^ 2) xs))"

subsection \<open>Floating-point numbers with their special values\<close>

text \<open>
  The values of an IEEE 754 number, without rounding and without overflow: a real, one of
  the two infinities, or NaN. Sum, difference and product follow the standard on the
  special values: NaN propagates, \<open>inf - inf\<close> and \<open>inf * 0\<close> are NaN.
\<close>

datatype ieee = Finite real | PosInf | NegInf | NaN

fun ieee_neg :: "ieee \<Rightarrow> ieee" where
  "ieee_neg (Finite x) = Finite (- x)"
| "ieee_neg PosInf = NegInf"
| "ieee_neg NegInf = PosInf"
| "ieee_neg NaN = NaN"

fun ieee_add :: "ieee \<Rightarrow> ieee \<Rightarrow> ieee" where
  "ieee_add NaN y = NaN"
| "ieee_add x NaN = NaN"
| "ieee_add (Finite x) (Finite y) = Finite (x + y)"
| "ieee_add PosInf NegInf = NaN"
| "ieee_add NegInf PosInf = NaN"
| "ieee_add PosInf y = PosInf"
| "ieee_add NegInf y = NegInf"
| "ieee_add (Finite x) y = y"

fun ieee_inf_times :: "ieee \<Rightarrow> real \<Rightarrow> ieee" where
  "ieee_inf_times i x = (if x = 0 then NaN else if 0 < x then i else ieee_neg i)"

fun ieee_mul :: "ieee \<Rightarrow> ieee \<Rightarrow> ieee" where
  "ieee_mul NaN y = NaN"
| "ieee_mul x NaN = NaN"
| "ieee_mul (Finite x) (Finite y) = Finite (x * y)"
| "ieee_mul (Finite x) y = ieee_inf_times y x"
| "ieee_mul x (Finite y) = ieee_inf_times x y"
| "ieee_mul PosInf PosInf = PosInf"
| "ieee_mul NegInf NegInf = PosInf"
| "ieee_mul PosInf NegInf = NegInf"
| "ieee_mul NegInf PosInf = NegInf"

instantiation ieee :: "{zero, one, plus, minus, times}"
begin

definition zero_ieee :: ieee where "zero_ieee = Finite 0"

definition one_ieee :: ieee where "one_ieee = Finite 1"

definition plus_ieee :: "ieee \<Rightarrow> ieee \<Rightarrow> ieee" where "plus_ieee x y = ieee_add x y"

definition minus_ieee :: "ieee \<Rightarrow> ieee \<Rightarrow> ieee" where
  "minus_ieee x y = ieee_add x (ieee_neg y)"

definition times_ieee :: "ieee \<Rightarrow> ieee \<Rightarrow> ieee" where "times_ieee x y = ieee_mul x y"

instance ..

end

subsection \<open>Diagnostics and the collaborators outside the two source files\<close>

text \<open>The values of the diagnostics dictionaries: numbers and nested dictionaries.\<close>

datatype diag = Num real | Dict "string \<Rightarrow> diag option"

text \<open>
  The policy class \<open>MLPPolicyPG\<close>, \<open>ptu.build_mlp\<close>, the Adam optimizer and
  \<open>F.mse_loss\<close> are not part of the two source files; they are parameters of the model.
  \<open>'o\<close> is one observation (a row of the observation array), \<open>'a\<close> one action.
  \<^item> \<open>new_policy\<close>: the constructor \<open>MLPPolicyPG(ac_dim, ob_dim, discrete, n_layers,
    layer_size, learning_rate)\<close>;
  \<^item> \<open>policy_update\<close>: \<open>MLPPolicyPG.update(obs, actions, advantages)\<close>, returning its
    diagnostics and the policy's new state;
  \<^item> \<open>new_critic\<close>: what \<open>ValueCritic.__init__\<close> builds from \<open>(ob_dim, n_layers,
    layer_size, learning_rate)\<close>, a network with \<open>output_size=1\<close> and its optimizer;
  \<^item> \<open>network\<close>: the value network on one observation (its single output);
  \<^item> \<open>mse_loss\<close>: \<open>F.mse_loss(pred_values, q_values)\<close>;
  \<^item> \<open>optimizer_step\<close>: \<open>zero_grad\<close>, \<open>loss.backward()\<close> and \<open>optimizer.step()\<close>
    for the loss of the given observations and targets.

  The two constructors may fail; the other collaborators are total functions here, so
  exceptions raised inside them are not part of the model.
\<close>

record ('o, 'a, 'p, 'c) externals =
  new_policy :: "int \<times> int \<times> bool \<times> int \<times> int \<times> real \<Rightarrow> error + 'p"
  policy_update :: "'p \<Rightarrow> 'o list \<Rightarrow> 'a list \<Rightarrow> real list \<Rightarrow> diag \<times> 'p"
  new_critic :: "int \<times> int \<times> int \<times> real option \<Rightarrow> error + 'c"
  network :: "'c \<Rightarrow> 'o \<Rightarrow> real"
  mse_loss :: "ndarray \<Rightarrow> real list \<Rightarrow> real"
  optimizer_step :: "'c \<Rightarrow> 'o list \<Rightarrow> real list \<Rightarrow> 'c"

subsection \<open>The value network (critics.py)\<close>

text \<open>
  \<open>ValueCritic.forward\<close>: \<open>self.network(obs).squeeze()\<close>. For a batch of \<open>N\<close>
  observations the network's output has shape \<open>(N, 1)\<close>.
\<close>

definition ValueCritic_forward ::
  "('o, 'a, 'p, 'c) externals \<Rightarrow> 'c \<Rightarrow> 'o list \<Rightarrow> ndarray" where
  "ValueCritic_forward ext c obs =
     squeeze \<lparr>shape = [length obs, 1], data = map (network ext c) obs\<rparr>"

text \<open>\<open>ValueCritic.update\<close>: one gradient step; returns the loss under "Baseline Loss".\<close>

definition ValueCritic_update ::
  "('o, 'a, 'p, 'c) externals \<Rightarrow> 'c \<Rightarrow> 'o list \<Rightarrow> real list \<Rightarrow> (string \<Rightarrow> diag option) \<times> 'c" where
  "ValueCritic_update ext c obs q_values =
     (let pred_values = ValueCritic_forward ext c obs;
          loss = mse_loss ext pred_values q_values
      in ([''Baseline Loss'' \<mapsto> Num loss], optimizer_step ext c obs q_values))"

subsection \<open>Construction\<close>



subsection \<open>The advantage estimator\<close>

text \<open>
  The GAE loop \<open>for i in reversed(range(batch_size))\<close>, run over the list of indices it
  visits. \<open>values\<close> is the array with the dummy entry appended, \<open>advantages\<close> the array
  of zeros of length \<open>batch_size + 1\<close> that the loop fills.
\<close>

fun gae_loop ::
  "'x::{plus, minus, times, one} \<Rightarrow> 'x \<Rightarrow> 'x list \<Rightarrow> 'x list \<Rightarrow> 'x list \<Rightarrow> nat list
   \<Rightarrow> 'x list \<Rightarrow> 'x \<Rightarrow> error + 'x list" where
  "gae_loop g lam rewards values terminals [] advantages next_advantage = Inr advantages"
| "gae_loop g lam rewards values terminals (i # is) advantages next_advantage =
     (case getitem rewards i of Inl e \<Rightarrow> Inl e | Inr r_i \<Rightarrow>
      case getitem values (i + 1) of Inl e \<Rightarrow> Inl e | Inr v_next \<Rightarrow>
      case getitem terminals i of Inl e \<Rightarrow> Inl e | Inr term_i \<Rightarrow>
      case getitem values i of Inl e \<Rightarrow> Inl e | Inr v_i \<Rightarrow>
        (let delta_t = r_i + g * v_next * (1 - term_i) - v_i;
             a_i = delta_t + g * lam * next_advantage * (1 - term_i)
         in gae_loop g lam rewards values terminals is (advantages[i := a_i]) a_i))"

text \<open>
  The three modes of \<open>_estimate_advantage\<close>, before normalization. \<open>q_values\<close> is a flat
  array, so its shape is \<open>(len(q_values),)\<close>; \<open>batch_size\<close> is \<open>obs.shape[0]\<close>;
  \<open>advantages[:-1]\<close> drops the dummy entry.
\<close>

definition raw_advantage ::
  "('o, 'a, 'p, 'c) externals \<Rightarrow> ('p, 'c) PGAgent \<Rightarrow> 'o list \<Rightarrow> real list \<Rightarrow> real list \<Rightarrow> real list
   \<Rightarrow> error + real list" where
  "raw_advantage ext self obs rewards q_values terminals =
     (case critic self of
        None \<Rightarrow> Inr q_values
      | Some c \<Rightarrow>
         (let values = squeeze (ValueCritic_forward ext c obs)
          in if shape values \<noteq> [length q_values] then Inl AssertionError
             else (case gae_lambda self of
                     None \<Rightarrow> Inr (map2 (-) q_values (data values))
                   | Some lam \<Rightarrow>
                      (let batch_size = length obs;
                           values = data values @ [0];
                           advantages = replicate (batch_size + 1) 0
                       in case gae_loop (gamma self) lam rewards values terminals
                                 (rev [0..<batch_size]) advantages 0 of
                            Inl e \<Rightarrow> Inl e
                          | Inr advantages \<Rightarrow> Inr (butlast advantages)))))"

text \<open>The normalization at the end of \<open>_estimate_advantage\<close>.\<close>

definition standardize :: "real list \<Rightarrow> real list" where
  "standardize advantages =
     (let mean = np_mean advantages;
          std = np_std advantages + 1 / 10 ^ 8
      in map (\<lambda>a. (a - mean) / std) advantages)"

definition estimate_advantage ::
  "('o, 'a, 'p, 'c) externals \<Rightarrow> ('p, 'c) PGAgent \<Rightarrow> 'o list \<Rightarrow> real list \<Rightarrow> real list \<Rightarrow> real list
   \<Rightarrow> error + real list" where
  "estimate_advantage ext self obs rewards q_values terminals =
     (case raw_advantage ext self obs rewards q_values terminals of
        Inl e \<Rightarrow> Inl e
      | Inr advantages \<Rightarrow>
          Inr (if normalize_advantages self then standardize advantages else advantages))"

subsection \<open>The train step\<close>

text \<open>
  The calls that mutate parameters are recorded in a trace, in the order they are made.
\<close>

datatype ('o, 'a) call =
  PolicyUpdate "'o list" "'a list" "real list"
| CriticUpdate "'o list" "real list"

text \<open>
  One iteration of the loop \<open>for _ in range(self.baseline_gradient_steps)\<close>; the loop
  state is the critic, \<open>critic_info\<close>, \<open>info\<close> and the trace.
\<close>

definition critic_iteration ::
  "('o, 'a, 'p, 'c) externals \<Rightarrow> 'o list \<Rightarrow> real list
   \<Rightarrow> 'c \<times> (string \<Rightarrow> diag option) \<times> (string \<Rightarrow> diag option) \<times> ('o, 'a) call list
   \<Rightarrow> 'c \<times> (string \<Rightarrow> diag option) \<times> (string \<Rightarrow> diag option) \<times> ('o, 'a) call list" where
  "critic_iteration ext obs q_values st =
     (case st of (c, critic_info, info, trace) \<Rightarrow>
        (case ValueCritic_update ext c obs q_values of (critic_info', c') \<Rightarrow>
           (c', critic_info', info(''critic_info'' \<mapsto> Dict critic_info'),
            trace @ [CriticUpdate obs q_values])))"

text \<open>
  \<open>PGAgent.update\<close>. The result is the returned dictionary or the exception raised,
  together with the agent after the call and the trace of the parameter updates made.
  \<open>range(None)\<close> raises TypeError; \<open>range(k)\<close> is empty for \<open>k \<le> 0\<close>.
\<close>

definition update ::
  "('o, 'a, 'p, 'c) externals \<Rightarrow> ('p, 'c) PGAgent
   \<Rightarrow> 'o list list \<Rightarrow> 'a list list \<Rightarrow> real list list \<Rightarrow> real list list
   \<Rightarrow> (error + (string \<Rightarrow> diag option)) \<times> ('p, 'c) PGAgent \<times> ('o, 'a) call list" where
  "update ext self obs actions rewards terminals =
     (let q_values = calculate_q_vals self rewards in
      case concatenate obs of Inl e \<Rightarrow> (Inl e, self, []) | Inr obs \<Rightarrow>
      case concatenate actions of Inl e \<Rightarrow> (Inl e, self, []) | Inr actions \<Rightarrow>
      case concatenate rewards of Inl e \<Rightarrow> (Inl e, self, []) | Inr rewards \<Rightarrow>
      case concatenate terminals of Inl e \<Rightarrow> (Inl e, self, []) | Inr terminals \<Rightarrow>
      case concatenate q_values of Inl e \<Rightarrow> (Inl e, self, []) | Inr q_values \<Rightarrow>
      case estimate_advantage ext self obs rewards q_values terminals of
        Inl e \<Rightarrow> (Inl e, self, [])
      | Inr advantages \<Rightarrow>
         (case policy_update ext (actor self) obs actions advantages of
            (actor_info, actor') \<Rightarrow>
              (let self' = self\<lparr>actor := actor'\<rparr>;
                   info = [''actor_info'' \<mapsto> actor_info];
                   trace = [PolicyUpdate obs actions advantages]
               in case critic self' of
                    None \<Rightarrow> (Inr info, self', trace)
                  | Some c \<Rightarrow>
                     (case baseline_gradient_steps self' of
                        None \<Rightarrow> (Inl TypeError, self', trace)
                      | Some k \<Rightarrow>
                         (case (critic_iteration ext obs q_values ^^ nat k)
                                 (c, Map.empty, info, trace) of
                            (c', critic_info, info', trace') \<Rightarrow>
                              (Inr (info' ++ critic_info), self'\<lparr>critic := Some c'\<rparr>, trace'))))))"


subsection \<open>Generalized advantage estimation as specified\<close>

text \<open>
  The backward recursion in the words of the specification, for a batch of \<open>N\<close> entries:
  \<open>A N = 0\<close> and \<open>V N = 0\<close>, and for \<open>i < N\<close>
  \<open>delta i = r i + g * V (i + 1) * (1 - term i) - V i\<close> and
  \<open>A i = delta i + g * lam * A (i + 1) * (1 - term i)\<close>.
\<close>

function gae_recursion ::
  "real \<Rightarrow> real \<Rightarrow> nat \<Rightarrow> real list \<Rightarrow> real list \<Rightarrow> real list \<Rightarrow> nat \<Rightarrow> real" where
  "gae_recursion g lam N r V term i =
     (if N \<le> i then 0
      else (let V_next = (if i + 1 = N then 0 else V ! (i + 1));
                delta = r ! i + g * V_next * (1 - term ! i) - V ! i
            in delta + g * lam * gae_recursion g lam N r V term (i + 1) * (1 - term ! i)))"
  by pat_completeness auto
termination
  by (relation "measure (\<lambda>(g, lam, N, r, V, term, i). N - i)") auto

declare gae_recursion.simps [simp del]

subsection \<open>A concrete instance\<close>

text \<open>
  Collaborators and an agent on which the definitions can be evaluated: observations are
  reals, the policy's state counts its updates, the value network adds its single
  parameter to the observation.
\<close>

definition demo_ext :: "(real, nat, nat, real) externals" where
  "demo_ext =
     \<lparr>new_policy = (\<lambda>_. Inr 0),
      policy_update = (\<lambda>p obs actions advantages. (Num (sum_list advantages), Suc p)),
      new_critic = (\<lambda>_. Inr 0),
      network = (\<lambda>c ob. c + ob),
      mse_loss = (\<lambda>pred q. np_mean (map2 (\<lambda>p t. (p - t) ^ 2) (data pred) q)),
      optimizer_step = (\<lambda>c obs q. c + 1)\<rparr>"

definition demo_agent :: "(nat, real) PGAgent" where
  "demo_agent =
     \<lparr>actor = 0, critic = None, baseline_gradient_steps = None, gamma = 1 / 2,
      use_reward_to_go = False, gae_lambda = None, normalize_advantages = False\<rparr>"

definition demo_gae_agent :: "(nat, real) PGAgent" where
  "demo_gae_agent =
     demo_agent\<lparr>critic := Some 0, baseline_gradient_steps := Some 2, gae_lambda := Some (1 / 2)\<rparr>"


section \<open>Properties of the Q-value estimator\<close>

lemma py_sum_eq: "py_sum xs = sum_list xs"
proof -
  have "foldl (+) a xs = a + sum_list xs" for a :: real
    by (induction xs arbitrary: a) (simp_all add: add.assoc)
  from this [of 0] show ?thesis by (simp add: py_sum_def)
qed

lemma fold_add_sum_list:
  "fold (\<lambda>x (acc::real). acc + f x) xs a = a + sum_list (map f xs)"
  by (induction xs arbitrary: a) (simp_all add: add.assoc)

lemma reward_to_go_at_eq:
  "reward_to_go_at g rewards t = (\<Sum>t' = t..<length rewards. g ^ (t' - t) * rewards ! t')"
  by (simp add: reward_to_go_at_def fold_add_sum_list interv_sum_list_conv_sum_set_nat)

lemma fold_list_update_upt:
  "n \<le> length out \<Longrightarrow>
   fold (\<lambda>t acc. acc[t := f t]) [0..<n] out = map f [0..<n] @ drop n out"
proof (induction n)
  case 0
  then show ?case by simp
next
  case (Suc n)
  then have "n < length out" by simp
  then have "(map f [0..<n] @ drop n out)[n := f n] = map f [0..<n] @ (drop n out)[0 := f n]"
    by (simp add: list_update_append)
  also have "(drop n out)[0 := f n] = f n # drop (Suc n) out"
    using \<open>n < length out\<close> by (simp add: Cons_nth_drop_Suc [symmetric])
  finally show ?case using Suc by simp
qed

lemma discounted_reward_to_go_eq:
  "discounted_reward_to_go self rewards =
     map (reward_to_go_at (gamma self) rewards) [0..<length rewards]"
  by (simp add: discounted_reward_to_go_def Let_def fold_list_update_upt)

lemma discounted_return_eq:
  "discounted_return self rewards =
     replicate (length rewards) (\<Sum>t = 0..<length rewards. gamma self ^ t * rewards ! t)"
  by (simp add: discounted_return_def py_sum_eq interv_sum_list_conv_sum_set_nat)

text \<open>
  Claim C3. In full-trajectory-return mode the Q-values of every trajectory are computed by
  \<open>discounted_return\<close>; its output has the length \<open>T\<close> of the reward sequence and each
  of its entries is the same value, the sum of \<open>gamma ^ t * r t\<close> over \<open>t < T\<close>. A trajectory
  of length 1 yields its single reward.
\<close>

theorem discounted_return_full_trajectory:
  "\<not> use_reward_to_go self \<Longrightarrow>
     calculate_q_vals self rs = map (discounted_return self) rs
   \<and> length (discounted_return self rewards) = length rewards
   \<and> discounted_return self rewards =
       replicate (length rewards) (\<Sum>t = 0..<length rewards. gamma self ^ t * rewards ! t)
   \<and> (\<forall>i < length rewards. discounted_return self rewards ! i = (\<Sum>t = 0..<length rewards. gamma self ^ t * rewards ! t))
   \<and> discounted_return self [r0] = [r0]"
  by (simp add: calculate_q_vals_def discounted_return_eq)

theorem discounted_return_full_trajectory_witness:
  "\<not> use_reward_to_go demo_agent
   \<and> calculate_q_vals demo_agent [[1, 2, 4], [3]] = [[3, 3, 3], [3]]"
proof -
  have h: "\<not> use_reward_to_go demo_agent" by (simp add: demo_agent_def)
  have g: "gamma demo_agent = 1 / 2" by (simp add: demo_agent_def)
  show ?thesis
    using discounted_return_full_trajectory [OF h, of "[[1, 2, 4], [3]]" "[1, 2, 4]" 3] h
    by (simp add: g sum.atLeast0_lessThan_Suc numeral_3_eq_3)
qed

text \<open>
  Claim C2. In reward-to-go mode the Q-values of every trajectory are computed by
  \<open>discounted_reward_to_go\<close> from that trajectory's rewards alone (two batches with the same
  rewards at position \<open>k\<close> give the same Q-values at position \<open>k\<close>); its output has the
  length \<open>T\<close> of the reward sequence, its entry at \<open>t\<close> is the sum of
  \<open>gamma ^ (t' - t) * r t'\<close> over \<open>t \<le> t' < T\<close>, its last entry is the last reward and its
  entry at 0 is the full-trajectory discounted return.
\<close>

theorem reward_to_go_tail_sum:
  "use_reward_to_go self \<Longrightarrow>
     calculate_q_vals self rs = map (discounted_reward_to_go self) rs
   \<and> (k < length rs \<and> k < length rs' \<and> rs ! k = rs' ! k
        \<longrightarrow> calculate_q_vals self rs ! k = calculate_q_vals self rs' ! k)
   \<and> length (discounted_reward_to_go self rewards) = length rewards
   \<and> (\<forall>t < length rewards.
         discounted_reward_to_go self rewards ! t =
           (\<Sum>t' = t..<length rewards. gamma self ^ (t' - t) * rewards ! t'))
   \<and> (rewards \<noteq> [] \<longrightarrow>
         discounted_reward_to_go self rewards ! (length rewards - 1) = rewards ! (length rewards - 1)
       \<and> discounted_reward_to_go self rewards ! 0 =
           (\<Sum>t = 0..<length rewards. gamma self ^ t * rewards ! t)
       \<and> discounted_reward_to_go self rewards ! 0 = discounted_return self rewards ! 0)"
proof (intro conjI impI allI)
  assume m: "use_reward_to_go self"
  show "calculate_q_vals self rs = map (discounted_reward_to_go self) rs"
    using m by (simp add: calculate_q_vals_def)
  show "calculate_q_vals self rs ! k = calculate_q_vals self rs' ! k"
    if "k < length rs \<and> k < length rs' \<and> rs ! k = rs' ! k"
    using m that by (simp add: calculate_q_vals_def)
  show "length (discounted_reward_to_go self rewards) = length rewards"
    by (simp add: discounted_reward_to_go_eq)
  show "discounted_reward_to_go self rewards ! t =
          (\<Sum>t' = t..<length rewards. gamma self ^ (t' - t) * rewards ! t')"
    if "t < length rewards" for t
    using that by (simp add: discounted_reward_to_go_eq reward_to_go_at_eq)
  assume ne: "rewards \<noteq> []"
  then have pos: "0 < length rewards" by simp
  obtain m where m: "length rewards = Suc m"
    using pos by (cases "length rewards") simp_all
  show "discounted_reward_to_go self rewards ! (length rewards - 1) = rewards ! (length rewards - 1)"
    by (simp add: discounted_reward_to_go_eq reward_to_go_at_eq m nth_append)
  show "discounted_reward_to_go self rewards ! 0 =
          (\<Sum>t = 0..<length rewards. gamma self ^ t * rewards ! t)"
    using pos by (simp add: discounted_reward_to_go_eq reward_to_go_at_eq)
  then show "discounted_reward_to_go self rewards ! 0 = discounted_return self rewards ! 0"
    using pos by (simp add: discounted_return_eq)
qed

theorem reward_to_go_tail_sum_witness:
  "use_reward_to_go (demo_agent\<lparr>use_reward_to_go := True\<rparr>)
   \<and> calculate_q_vals (demo_agent\<lparr>use_reward_to_go := True\<rparr>) [[1, 2, 4], [3]] = [[3, 4, 4], [3]]
   \<and> discounted_reward_to_go (demo_agent\<lparr>use_reward_to_go := True\<rparr>) [1, 2, 4] ! 2 = 4"
proof -
  let ?a = "demo_agent\<lparr>use_reward_to_go := True\<rparr>"
  have h: "use_reward_to_go ?a" by simp
  have g: "gamma ?a = 1 / 2" by (simp add: demo_agent_def)
  have u: "[0..<3] = [0, 1, 2::nat]" "[1..<3] = [1, 2::nat]" "[2..<3] = [2::nat]"
    "[0..<1] = [0::nat]"
    by code_simp+
  have q: "discounted_reward_to_go ?a [1, 2, 4] = [3, 4, 4]" "discounted_reward_to_go ?a [3] = [3]"
    by (simp_all add: discounted_reward_to_go_def reward_to_go_at_def g u)
  show ?thesis
    using reward_to_go_tail_sum [OF h, of "[[1, 2, 4], [3]]" 0 "[[1, 2, 4]]" "[1, 2, 4]"] h
    by (simp add: q)
qed

section \<open>Properties of the advantage estimator\<close>

lemma values_forward:
  "data (squeeze (ValueCritic_forward ext c obs)) = map (network ext c) obs"
  by (simp add: ValueCritic_forward_def squeeze_def)

lemma shape_forward:
  "shape (squeeze (ValueCritic_forward ext c obs)) = (if length obs = 1 then [] else [length obs])"
  by (simp add: ValueCritic_forward_def squeeze_def)

lemma gae_loop_rev_upt:
  assumes "length V = N" and "length adv = N + 1"
    and "n \<le> N" and "n \<le> length rewards" and "n \<le> length terminals"
  shows "gae_loop g lam rewards (V @ [0]) terminals (rev [0..<n]) adv
           (gae_recursion g lam N rewards V terminals n)
         = Inr (map (gae_recursion g lam N rewards V terminals) [0..<n] @ drop n adv)"
  using assms
proof (induction n arbitrary: adv)
  case 0
  then show ?case by simp
next
  case (Suc n)
  let ?A = "gae_recursion g lam N rewards V terminals"
  from Suc.prems have n: "n < N" "n < length rewards" "n < length terminals" by simp_all
  have vnext: "(V @ [0]) ! Suc n = (if Suc n = N then 0 else V ! Suc n)"
    using n Suc.prems(1) by (auto simp: nth_append)
  have vn: "(V @ [0]) ! n = V ! n"
    using n Suc.prems(1) by (simp add: nth_append)
  have step: "?A n = rewards ! n + g * (V @ [0]) ! Suc n * (1 - terminals ! n) - (V @ [0]) ! n
                      + g * lam * ?A (Suc n) * (1 - terminals ! n)"
    using n by (subst gae_recursion.simps) (simp add: vnext vn Let_def)
  have len: "length (adv[n := ?A n]) = N + 1" using Suc.prems by simp
  have ih: "gae_loop g lam rewards (V @ [0]) terminals (rev [0..<n]) (adv[n := ?A n]) (?A n)
         = Inr (map ?A [0..<n] @ drop n (adv[n := ?A n]))"
    using Suc.IH [OF Suc.prems(1) len] n by simp
  have dr: "drop n (adv[n := ?A n]) = ?A n # drop (Suc n) adv"
    using n Suc.prems(2) by (simp add: drop_update_cancel Cons_nth_drop_Suc [symmetric] upd_conv_take_nth_drop)
  have "gae_loop g lam rewards (V @ [0]) terminals (rev [0..<Suc n]) adv (?A (Suc n))
        = gae_loop g lam rewards (V @ [0]) terminals (rev [0..<n]) (adv[n := ?A n]) (?A n)"
    using n Suc.prems(1) by (simp add: getitem_def Let_def step)
  then show ?case by (simp add: ih dr)
qed

lemma gae_loop_index_error:
  assumes "0 < n" and "length rewards < n \<or> length terminals < n"
  shows "gae_loop g lam rewards values terminals (rev [0..<n]) adv next = Inl IndexError"
proof -
  obtain m where m: "n = Suc m" using assms(1) by (cases n) simp_all
  show ?thesis using assms(2) by (auto simp: m getitem_def split: sum.splits)
qed


lemma drop_Cons_replicate: "drop n (x # replicate n x) = [x]"
  by (induction n) simp_all

lemma raw_advantage_gae:
  assumes "critic self = Some c" and "gae_lambda self = Some lam"
  shows "raw_advantage ext self obs rewards q_values terminals =
     (if length obs = 1 \<or> length q_values \<noteq> length obs then Inl AssertionError
      else if length rewards < length obs \<or> length terminals < length obs then Inl IndexError
      else Inr (map (gae_recursion (gamma self) lam (length obs) rewards
                       (map (network ext c) obs) terminals) [0..<length obs]))"
proof -
  let ?N = "length obs"
  let ?V = "map (network ext c) obs"
  let ?A = "gae_recursion (gamma self) lam ?N rewards ?V terminals"
  let ?loop = "gae_loop (gamma self) lam rewards (?V @ [0]) terminals (rev [0..<?N])
                 (replicate (?N + 1) 0) 0"
  have unfold: "raw_advantage ext self obs rewards q_values terminals =
      (if length obs = 1 \<or> length q_values \<noteq> length obs then Inl AssertionError
       else (case ?loop of Inl e \<Rightarrow> Inl e | Inr advantages \<Rightarrow> Inr (butlast advantages)))"
    using assms by (auto simp: raw_advantage_def Let_def shape_forward values_forward)
  have zero: "?A ?N = 0" by (subst gae_recursion.simps) simp
  have ok: "?loop = Inr (map ?A [0..<?N] @ [0])"
    if "\<not> (length rewards < ?N \<or> length terminals < ?N)"
  proof -
    have "gae_loop (gamma self) lam rewards (?V @ [0]) terminals (rev [0..<?N])
            (replicate (?N + 1) 0) (?A ?N)
          = Inr (map ?A [0..<?N] @ drop ?N (replicate (?N + 1) 0))"
      using that by (intro gae_loop_rev_upt) simp_all
    then show ?thesis by (simp add: zero drop_Cons_replicate)
  qed
  have bad: "?loop = Inl IndexError"
    if "length rewards < ?N \<or> length terminals < ?N"
    using that by (intro gae_loop_index_error) auto
  show ?thesis
    unfolding unfold using ok bad by (simp add: butlast_append)
qed

lemma gae_recursion_local:
  assumes "hi < N" and "term ! hi = 1"
    and "\<forall>j. i \<le> j \<and> j \<le> hi \<longrightarrow> r1 ! j = r2 ! j"
    and "i \<le> hi"
  shows "gae_recursion g lam N r1 V term i = gae_recursion g lam N r2 V term i"
  using assms(3,4)
proof (induction "hi - i" arbitrary: i)
  case 0
  then have "i = hi" by simp
  then show ?case
    using assms(1,2) 0
    by (subst gae_recursion.simps, subst (2) gae_recursion.simps) (simp add: Let_def)
next
  case (Suc d)
  then have lt: "i < hi" "i < N" using assms(1) by simp_all
  have "gae_recursion g lam N r1 V term (i + 1) = gae_recursion g lam N r2 V term (i + 1)"
    using Suc lt by (intro Suc.hyps(1)) auto
  moreover have "r1 ! i = r2 ! i" using Suc.prems by simp
  ultimately show ?case
    using lt by (subst gae_recursion.simps, subst (2) gae_recursion.simps) (simp add: Let_def)
qed

text \<open>
  On the batches on which the estimator returns in GAE mode, the advantages before
  normalization are, at every index \<open>i\<close>, the value \<open>A i\<close> of the specified backward
  recursion on the rewards, the baseline's predictions and the terminal markers, and the
  returned array is this one, standardized if normalization is on. The estimator returns
  for every batch of matching lengths, except a batch of exactly one observation.
\<close>

lemma gae_backward_recursion:
  assumes "critic self = Some c" and "gae_lambda self = Some lam"
  shows "(length obs \<noteq> 1 \<and> length q_values = length obs
            \<and> length rewards = length obs \<and> length terminals = length obs
          \<longrightarrow> (\<exists>A. raw_advantage ext self obs rewards q_values terminals = Inr A))
       \<and> (raw_advantage ext self obs rewards q_values terminals = Inr A \<longrightarrow>
            length A = length obs
          \<and> (\<forall>i < length obs.
                A ! i = gae_recursion (gamma self) lam (length obs) rewards
                          (data (squeeze (ValueCritic_forward ext c obs))) terminals i)
          \<and> estimate_advantage ext self obs rewards q_values terminals =
                Inr (if normalize_advantages self then standardize A else A))"
proof -
  note ra = raw_advantage_gae [OF assms, of ext obs rewards q_values terminals]
  show ?thesis
  proof (intro conjI impI)
    assume "length obs \<noteq> 1 \<and> length q_values = length obs
            \<and> length rewards = length obs \<and> length terminals = length obs"
    then show "\<exists>A. raw_advantage ext self obs rewards q_values terminals = Inr A"
      by (simp add: ra)
  next
    assume r: "raw_advantage ext self obs rewards q_values terminals = Inr A"
    then have A: "A = map (gae_recursion (gamma self) lam (length obs) rewards
                         (map (network ext c) obs) terminals) [0..<length obs]"
      unfolding ra by (simp split: if_splits)
    show "length A = length obs" by (simp add: A)
    show "\<forall>i < length obs.
            A ! i = gae_recursion (gamma self) lam (length obs) rewards
                      (data (squeeze (ValueCritic_forward ext c obs))) terminals i"
      by (simp add: A values_forward)
    show "estimate_advantage ext self obs rewards q_values terminals =
            Inr (if normalize_advantages self then standardize A else A)"
      by (simp add: estimate_advantage_def r)
  qed
qed

lemma gae_backward_recursion_example:
  "critic demo_gae_agent = Some 0 \<and> gae_lambda demo_gae_agent = Some (1 / 2)
   \<and> raw_advantage demo_ext demo_gae_agent [2, 4, 1] [1, 2, 3] [0, 0, 0] [0, 1, 0]
       = Inr [1 / 2, - 2, 2]
   \<and> estimate_advantage demo_ext demo_gae_agent [2, 4, 1] [1, 2, 3] [0, 0, 0] [0, 1, 0]
       = Inr [1 / 2, - 2, 2]
   \<and> gae_recursion (1 / 2) (1 / 2) 3 [1, 2, 3] [2, 4, 1] [0, 1, 0] 0 = 1 / 2
   \<and> gae_recursion (1 / 2) (1 / 2) 3 [1, 2, 3] [2, 4, 1] [0, 1, 0] 1 = - 2
   \<and> gae_recursion (1 / 2) (1 / 2) 3 [1, 2, 3] [2, 4, 1] [0, 1, 0] 2 = 2"
proof -
  have c: "critic demo_gae_agent = Some 0" and l: "gae_lambda demo_gae_agent = Some (1 / 2)"
    and g: "gamma demo_gae_agent = 1 / 2" and n: "\<not> normalize_advantages demo_gae_agent"
    by (simp_all add: demo_gae_agent_def demo_agent_def)
  have r: "raw_advantage demo_ext demo_gae_agent [2, 4, 1] [1, 2, 3] [0, 0, 0] [0, 1, 0]
             = Inr [1 / 2, - 2, 2]"
    by code_simp
  have v: "data (squeeze (ValueCritic_forward demo_ext 0 [2, 4, 1])) = [2, 4, 1]"
    by (simp add: values_forward demo_ext_def)
  have e: "estimate_advantage demo_ext demo_gae_agent [2, 4, 1] [1, 2, 3] [0, 0, 0] [0, 1, 0]
             = Inr [1 / 2, - 2, 2]"
    by (simp add: estimate_advantage_def r n)
  have len3: "length [2, 4, 1 :: real] = 3" by simp
  note T = gae_backward_recursion [OF c l, where obs = "[2, 4, 1]" and q_values = "[0, 0, 0]"
         and rewards = "[1, 2, 3]" and terminals = "[0, 1, 0]" and ext = demo_ext
         and A = "[1 / 2, - 2, 2]"]
  from T r have "\<forall>i < length [2, 4, 1 :: real]. [1 / 2, - 2, 2] ! i =
      gae_recursion (gamma demo_gae_agent) (1 / 2) (length [2, 4, 1 :: real]) [1, 2, 3]
        (data (squeeze (ValueCritic_forward demo_ext 0 [2, 4, 1]))) [0, 1, 0] i"
    by blast
  then have all: "\<forall>i < 3. [1 / 2, - 2, 2] ! i =
      gae_recursion (1 / 2) (1 / 2) 3 [1, 2, 3] [2, 4, 1] [0, 1, 0] i"
    unfolding len3 v g .
  have "gae_recursion (1 / 2) (1 / 2) 3 [1, 2, 3] [2, 4, 1] [0, 1, 0] 0 = 1 / 2"
    using all [rule_format, of 0] by simp
  moreover have "gae_recursion (1 / 2) (1 / 2) 3 [1, 2, 3] [2, 4, 1] [0, 1, 0] 1 = - 2"
    using all [rule_format, of 1] by simp
  moreover have "gae_recursion (1 / 2) (1 / 2) 3 [1, 2, 3] [2, 4, 1] [0, 1, 0] 2 = 2"
    using all [rule_format, of 2] by simp
  ultimately show ?thesis using c l r e by simp
qed

text \<open>
  Claim C10. In GAE mode the result of the advantage estimator (advantages or exception)
  does not depend on the entries of the Q-value array: two calls that differ only in
  Q-value arrays of the same length have the same result.
\<close>

theorem gae_ignores_q_values:
  assumes "critic self = Some c" and "gae_lambda self = Some lam"
    and "length q_values = length q_values'"
  shows "estimate_advantage ext self obs rewards q_values terminals =
         estimate_advantage ext self obs rewards q_values' terminals"
  using assms(3)
  by (simp add: estimate_advantage_def raw_advantage_gae [OF assms(1,2)])

theorem gae_ignores_q_values_witness:
  "critic demo_gae_agent = Some 0 \<and> gae_lambda demo_gae_agent = Some (1 / 2)
   \<and> length [0, 0, 0 :: real] = length [5, 6, 7 :: real]
   \<and> estimate_advantage demo_ext demo_gae_agent [2, 4, 1] [1, 2, 3] [5, 6, 7] [0, 1, 0]
       = Inr [1 / 2, - 2, 2]"
proof -
  have c: "critic demo_gae_agent = Some 0" and l: "gae_lambda demo_gae_agent = Some (1 / 2)"
    by (simp_all add: demo_gae_agent_def demo_agent_def)
  have len: "length [5, 6, 7 :: real] = length [0, 0, 0 :: real]" by simp
  have "raw_advantage demo_ext demo_gae_agent [2, 4, 1] [1, 2, 3] [0, 0, 0] [0, 1, 0]
             = Inr [1 / 2, - 2, 2]"
    by code_simp
  then have r: "estimate_advantage demo_ext demo_gae_agent [2, 4, 1] [1, 2, 3] [0, 0, 0] [0, 1, 0]
             = Inr [1 / 2, - 2, 2]"
    by (simp add: estimate_advantage_def demo_gae_agent_def demo_agent_def)
  show ?thesis
    using gae_ignores_q_values [OF c l len, of demo_ext "[2, 4, 1]" "[1, 2, 3]" "[0, 1, 0]"] c l r
    by simp
qed

lemma upt3: "[0..<3] = [0, 1, 2::nat]" by code_simp

lemma gae_loop_Finite:
  "gae_loop (Finite g) (Finite lam) (map Finite rewards) (map Finite values)
       (map Finite terminals) ixs (map Finite advantages) (Finite next_advantage)
   = (case gae_loop g lam rewards values terminals ixs advantages next_advantage of
        Inl e \<Rightarrow> Inl e | Inr adv \<Rightarrow> Inr (map Finite adv))"
proof (induction ixs arbitrary: advantages next_advantage)
  case Nil
  then show ?case by simp
next
  case (Cons i ixs)
  show ?case
    by (simp add: getitem_def Let_def one_ieee_def plus_ieee_def minus_ieee_def times_ieee_def
          Cons [symmetric] map_update)
qed


lemma gae_loop_full:
  assumes "length V = N" and "N \<le> length rewards" and "N \<le> length terminals"
  shows "gae_loop g lam rewards (V @ [0]) terminals (rev [0..<N]) (replicate (N + 1) 0) 0
         = Inr (map (gae_recursion g lam N rewards V terminals) [0..<N] @ [0])"
proof -
  have zero: "gae_recursion g lam N rewards V terminals N = 0"
    by (subst gae_recursion.simps) simp
  have "gae_loop g lam rewards (V @ [0]) terminals (rev [0..<N]) (replicate (N + 1) 0)
          (gae_recursion g lam N rewards V terminals N)
        = Inr (map (gae_recursion g lam N rewards V terminals) [0..<N]
               @ drop N (replicate (N + 1) 0))"
    using assms by (intro gae_loop_rev_upt) simp_all
  then show ?thesis by (simp add: zero drop_Cons_replicate)
qed

lemma gae_loop_ieee_finite:
  assumes "length V = N" and "N \<le> length rewards" and "N \<le> length terminals"
  shows "gae_loop (Finite g) (Finite lam) (map Finite rewards) (map Finite V @ [0])
           (map Finite terminals) (rev [0..<N]) (replicate (N + 1) 0) 0
         = Inr (map Finite (map (gae_recursion g lam N rewards V terminals) [0..<N]) @ [0])"
proof -
  have v: "map Finite V @ [0] = map Finite (V @ [0])" by (simp add: zero_ieee_def)
  have a: "replicate (N + 1) (0::ieee) = map Finite (replicate (N + 1) 0)"
    by (simp add: zero_ieee_def)
  have z: "(0::ieee) = Finite 0" by (simp add: zero_ieee_def)
  show ?thesis
    unfolding v a
    apply (subst z)
    apply (subst gae_loop_Finite)
    apply (simp only: gae_loop_full [OF assms] sum.case)
    apply (simp add: zero_ieee_def)
    done
qed

text \<open>
  The claim C9 as stated fails on floating-point values. The loop masks by multiplication,
  and \<open>inf * 0\<close> is NaN: with terminal markers \<open>[1, 0, 1]\<close> the first trajectory is
  index 0 alone; an infinite reward at index 1, in the second trajectory, turns the
  advantage at index 0 into NaN, while the reward 5 at index 1 leaves it at 1.
\<close>

theorem gae_nonfinite_reward_leaks:
  "gae_loop (Finite (1 / 2)) (Finite (1 / 2)) [Finite 1, PosInf, Finite 1]
      ([Finite 0, Finite 0, Finite 0] @ [0]) [Finite 1, Finite 0, Finite 1]
      (rev [0..<3]) (replicate (3 + 1) 0) 0
     = Inr [NaN, PosInf, Finite 1, Finite 0]
   \<and> gae_loop (Finite (1 / 2)) (Finite (1 / 2)) [Finite 1, Finite 5, Finite 1]
      ([Finite 0, Finite 0, Finite 0] @ [0]) [Finite 1, Finite 0, Finite 1]
      (rev [0..<3]) (replicate (3 + 1) 0) 0
     = Inr [Finite 1, Finite (21 / 4), Finite 1, Finite 0]"
  by (simp add: upt3 getitem_def Let_def zero_ieee_def one_ieee_def plus_ieee_def minus_ieee_def
        times_ieee_def numeral_2_eq_2 numeral_3_eq_3)

text \<open>
  Claim C9, as amended. In GAE mode without normalization, take two runs on the same
  observations, terminal markers and baseline, all values being finite and the arithmetic
  exact (no overflow to an infinity), and a trajectory occupying the indices \<open>lo..hi\<close> of
  the batch, whose last index carries the terminal marker 1. If the rewards of the two runs
  agree on \<open>lo..hi\<close>, so do the advantages, whatever the rewards and Q-values elsewhere.
  On such finite values the loop run on \<open>ieee\<close> returns the same advantages.
\<close>

theorem gae_trajectory_independence:
  assumes "critic self = Some c" and "gae_lambda self = Some lam"
    and "\<not> normalize_advantages self"
    and "estimate_advantage ext self obs rewards q_values terminals = Inr adv"
    and "estimate_advantage ext self obs rewards' q_values' terminals = Inr adv'"
    and "lo \<le> hi" and "hi < length obs" and "terminals ! hi = 1"
    and "\<forall>j. lo \<le> j \<and> j \<le> hi \<longrightarrow> rewards ! j = rewards' ! j"
  shows "(\<forall>i. lo \<le> i \<and> i \<le> hi \<longrightarrow> adv ! i = adv' ! i)
       \<and> gae_loop (Finite (gamma self)) (Finite lam) (map Finite rewards)
            (map Finite (data (squeeze (ValueCritic_forward ext c obs))) @ [0])
            (map Finite terminals) (rev [0..<length obs]) (replicate (length obs + 1) 0) 0
          = Inr (map Finite adv @ [0])
       \<and> gae_loop (Finite (gamma self)) (Finite lam) (map Finite rewards')
            (map Finite (data (squeeze (ValueCritic_forward ext c obs))) @ [0])
            (map Finite terminals) (rev [0..<length obs]) (replicate (length obs + 1) 0) 0
          = Inr (map Finite adv' @ [0])"
proof -
  let ?V = "map (network ext c) obs"
  note ra = raw_advantage_gae [OF assms(1,2)]
  have a: "adv = map (gae_recursion (gamma self) lam (length obs) rewards ?V terminals)
                   [0..<length obs]"
    and len: "length obs \<le> length rewards" "length obs \<le> length terminals"
    using assms(3,4) unfolding estimate_advantage_def ra
    by (simp_all split: if_splits)
  have a': "adv' = map (gae_recursion (gamma self) lam (length obs) rewards' ?V terminals)
                   [0..<length obs]"
    and len': "length obs \<le> length rewards'"
    using assms(3,5) unfolding estimate_advantage_def ra
    by (simp_all split: if_splits)
  have "adv ! i = adv' ! i" if i: "lo \<le> i \<and> i \<le> hi" for i
  proof -
    have "gae_recursion (gamma self) lam (length obs) rewards ?V terminals i =
          gae_recursion (gamma self) lam (length obs) rewards' ?V terminals i"
      using assms(7,8,9) i by (intro gae_recursion_local [of hi]) auto
    then show ?thesis using i assms(7) by (simp add: a a')
  qed
  moreover have "gae_loop (Finite (gamma self)) (Finite lam) (map Finite rewards)
            (map Finite ?V @ [0]) (map Finite terminals) (rev [0..<length obs])
            (replicate (length obs + 1) 0) 0 = Inr (map Finite adv @ [0])"
    unfolding a using len by (intro gae_loop_ieee_finite) simp_all
  moreover have "gae_loop (Finite (gamma self)) (Finite lam) (map Finite rewards')
            (map Finite ?V @ [0]) (map Finite terminals) (rev [0..<length obs])
            (replicate (length obs + 1) 0) 0 = Inr (map Finite adv' @ [0])"
    unfolding a' using len' len by (intro gae_loop_ieee_finite) simp_all
  ultimately show ?thesis by (simp add: values_forward)
qed

theorem gae_trajectory_independence_witness:
  "critic demo_gae_agent = Some 0 \<and> gae_lambda demo_gae_agent = Some (1 / 2)
   \<and> \<not> normalize_advantages demo_gae_agent
   \<and> estimate_advantage demo_ext demo_gae_agent [2, 4, 1] [1, 2, 3] [0, 0, 0] [0, 1, 0]
       = Inr [1 / 2, - 2, 2]
   \<and> estimate_advantage demo_ext demo_gae_agent [2, 4, 1] [1, 2, 7] [5, 5, 5] [0, 1, 0]
       = Inr [1 / 2, - 2, 6]
   \<and> [0, 1, 0 :: real] ! 1 = 1
   \<and> [1 / 2, - 2, 2 :: real] ! 0 = [1 / 2, - 2, 6 :: real] ! 0
   \<and> [1 / 2, - 2, 2 :: real] ! 1 = [1 / 2, - 2, 6 :: real] ! 1"
proof -
  have c: "critic demo_gae_agent = Some 0" and l: "gae_lambda demo_gae_agent = Some (1 / 2)"
    and n: "\<not> normalize_advantages demo_gae_agent"
    by (simp_all add: demo_gae_agent_def demo_agent_def)
  have "raw_advantage demo_ext demo_gae_agent [2, 4, 1] [1, 2, 3] [0, 0, 0] [0, 1, 0]
             = Inr [1 / 2, - 2, 2]"
    by code_simp
  then have r: "estimate_advantage demo_ext demo_gae_agent [2, 4, 1] [1, 2, 3] [0, 0, 0] [0, 1, 0]
             = Inr [1 / 2, - 2, 2]"
    by (simp add: estimate_advantage_def demo_gae_agent_def demo_agent_def)
  have "raw_advantage demo_ext demo_gae_agent [2, 4, 1] [1, 2, 7] [5, 5, 5] [0, 1, 0]
             = Inr [1 / 2, - 2, 6]"
    by code_simp
  then have r': "estimate_advantage demo_ext demo_gae_agent [2, 4, 1] [1, 2, 7] [5, 5, 5] [0, 1, 0]
             = Inr [1 / 2, - 2, 6]"
    by (simp add: estimate_advantage_def demo_gae_agent_def demo_agent_def)
  have lo: "(0::nat) \<le> 1" and hi: "1 < length [2, 4, 1 :: real]"
    and t: "[0, 1, 0 :: real] ! 1 = 1"
    and same: "\<forall>j. 0 \<le> j \<and> j \<le> 1 \<longrightarrow> [1, 2, 3 :: real] ! j = [1, 2, 7 :: real] ! j"
    by (simp_all add: nth_Cons split: nat.splits)
  from gae_trajectory_independence [OF c l n r r' lo hi t same]
  have all: "\<forall>i. 0 \<le> i \<and> i \<le> 1 \<longrightarrow> [1 / 2, - 2, 2 :: real] ! i = [1 / 2, - 2, 6 :: real] ! i"
    by blast
  have "[1 / 2, - 2, 2 :: real] ! 0 = [1 / 2, - 2, 6 :: real] ! 0"
    using all [rule_format, of 0] by simp
  moreover have "[1 / 2, - 2, 2 :: real] ! 1 = [1 / 2, - 2, 6 :: real] ! 1"
    using all [rule_format, of 1] by simp
  ultimately show ?thesis using c l n r r' t by simp
qed

section \<open>Properties of the normalization\<close>

lemma sum_list_map_affine:
  "sum_list (map (\<lambda>x. (x - m) / e) xs) = (sum_list xs - real (length xs) * m) / (e::real)"
  by (induction xs) (simp_all add: field_simps add_divide_distrib diff_divide_distrib)

lemma sum_list_map_divide:
  "sum_list (map (\<lambda>x. f x / c) xs) = sum_list (map f xs) / (c::real)"
  by (induction xs) (simp_all add: add_divide_distrib)

lemma np_mean_standardize:
  assumes "a \<noteq> []"
  shows "np_mean (standardize a) = 0"
proof -
  have "real (length a) \<noteq> 0" using assms by simp
  then have "sum_list a - real (length a) * np_mean a = 0"
    by (simp add: np_mean_def)
  then show ?thesis
    by (simp add: standardize_def Let_def np_mean_def sum_list_map_affine)
qed

lemma np_std_nonneg: "0 \<le> np_std a"
proof -
  have "0 \<le> sum_list (map (\<lambda>x. \<bar>x - np_mean a\<bar> ^ 2) a)"
    by (rule sum_list_nonneg) auto
  then show ?thesis by (simp add: np_std_def np_mean_def [of "map _ _"])
qed

lemma np_std_standardize:
  assumes "a \<noteq> []"
  shows "np_std (standardize a) = np_std a / (np_std a + 1 / 10 ^ 8)"
proof -
  let ?m = "np_mean a"
  let ?e = "np_std a + 1 / 10 ^ 8"
  have e: "0 < ?e" using np_std_nonneg [of a] by (simp add: add_nonneg_pos)
  have m0: "np_mean (standardize a) = 0" by (rule np_mean_standardize [OF assms])
  have "map (\<lambda>y. \<bar>y - 0\<bar> ^ 2) (standardize a) = map (\<lambda>x. \<bar>x - ?m\<bar> ^ 2 / ?e ^ 2) a"
    by (simp add: standardize_def Let_def power_divide)
  then have "np_mean (map (\<lambda>y. \<bar>y - np_mean (standardize a)\<bar> ^ 2) (standardize a))
             = np_mean (map (\<lambda>x. \<bar>x - ?m\<bar> ^ 2) a) / ?e ^ 2"
    unfolding m0 by (simp add: np_mean_def sum_list_map_divide)
  then have "np_std (standardize a) = sqrt (np_mean (map (\<lambda>x. \<bar>x - ?m\<bar> ^ 2) a) / ?e ^ 2)"
    by (simp add: np_std_def)
  also have "\<dots> = np_std a / \<bar>?e\<bar>"
    by (simp add: real_sqrt_divide np_std_def)
  finally show ?thesis using e by simp
qed

lemma np_std_pos:
  assumes "x \<in> set a" and "y \<in> set a" and "x \<noteq> y"
  shows "0 < np_std a"
proof (rule ccontr)
  assume "\<not> 0 < np_std a"
  then have z: "np_std a = 0" using np_std_nonneg [of a] by simp
  have ne: "a \<noteq> []" using assms(1) by auto
  then have "sum_list (map (\<lambda>x. \<bar>x - np_mean a\<bar> ^ 2) a) = 0"
    using z by (simp add: np_std_def np_mean_def [of "map _ _"])
  moreover have "\<forall>v \<in> set (map (\<lambda>x. \<bar>x - np_mean a\<bar> ^ 2) a). 0 \<le> v" by auto
  ultimately have all0: "\<forall>v \<in> set (map (\<lambda>x. \<bar>x - np_mean a\<bar> ^ 2) a). v = 0"
    using sum_list_nonneg_eq_0_iff [of "map (\<lambda>x. \<bar>x - np_mean a\<bar> ^ 2) a"] by blast
  have "v = np_mean a" if "v \<in> set a" for v
  proof -
    have "\<bar>v - np_mean a\<bar> ^ 2 \<in> set (map (\<lambda>x. \<bar>x - np_mean a\<bar> ^ 2) a)"
      using that by (rule imageI [of v "set a" "\<lambda>x. \<bar>x - np_mean a\<bar> ^ 2", unfolded set_map [symmetric]])
    with all0 have "\<bar>v - np_mean a\<bar> ^ 2 = 0" by blast
    then show ?thesis by simp
  qed
  then have "\<forall>v \<in> set a. v = np_mean a" by blast
  then show False using assms by metis
qed

lemma np_std_pair: "np_std [0, 2 / 10 ^ 8] = 1 / 10 ^ 8"
proof -
  have "np_mean [0, 2 / 10 ^ 8] = 1 / 10 ^ 8" by (simp add: np_mean_def)
  then have "np_std [0, 2 / 10 ^ 8] = sqrt ((1 / 10 ^ 8) ^ 2)"
    by (simp add: np_std_def np_mean_def power2_eq_square)
  also have "\<dots> = 1 / 10 ^ 8" by (rule real_sqrt_unique) simp_all
  finally show ?thesis .
qed

lemma standardize_pair: "standardize [0, 2 / 10 ^ 8] = [- 1 / 2, 1 / 2]"
proof -
  have m: "np_mean [0, 2 / 10 ^ 8] = 1 / 10 ^ 8" by (simp add: np_mean_def)
  have "standardize [0, 2 / 10 ^ 8] =
          map (\<lambda>a. (a - 1 / 10 ^ 8) / (1 / 10 ^ 8 + 1 / 10 ^ 8)) [0, 2 / 10 ^ 8]"
    by (simp only: standardize_def Let_def np_std_pair m)
  then show ?thesis by simp
qed

lemma np_std_half: "np_std [- 1 / 2, 1 / 2] = 1 / 2"
proof -
  have "np_mean [- 1 / 2, 1 / 2] = 0" by (simp add: np_mean_def)
  then have "np_std [- 1 / 2, 1 / 2] = sqrt ((1 / 2) ^ 2)"
    by (simp add: np_std_def np_mean_def power2_eq_square)
  also have "\<dots> = 1 / 2" by (rule real_sqrt_unique) simp_all
  finally show ?thesis .
qed


lemma np_std_one_three: "np_std [1, 3] = 1"
proof -
  have "np_mean [1, 3] = 2" by (simp add: np_mean_def)
  then show ?thesis by (simp add: np_std_def np_mean_def)
qed

text \<open>
  Claim C8, as amended. When \<open>normalize_advantages\<close> is on, the estimator returns the raw
  advantages of whichever mode produced them, standardized as
  \<open>(a - mean a) / (std a + 1e-8)\<close>. For a non-empty batch the standardized advantages have
  mean 0 and standard deviation \<open>s / (s + 1e-8)\<close>, where \<open>s\<close> is the standard deviation of
  the raw advantages. When the raw advantages are not all equal this lies strictly between
  0 and 1 and falls short of 1 by \<open>1e-8 / (s + 1e-8)\<close>: it is close to 1 only when \<open>s\<close>
  is large compared with \<open>1e-8\<close>.
\<close>

theorem standardization_after_every_mode:
  "(normalize_advantages self \<longrightarrow>
      estimate_advantage ext self obs rewards q_values terminals =
        (case raw_advantage ext self obs rewards q_values terminals of
           Inl e \<Rightarrow> Inl e | Inr a \<Rightarrow> Inr (standardize a)))
   \<and> standardize a = map (\<lambda>x. (x - np_mean a) / (np_std a + 1 / 10 ^ 8)) a
   \<and> (a \<noteq> [] \<longrightarrow>
        np_mean (standardize a) = 0
      \<and> np_std (standardize a) = np_std a / (np_std a + 1 / 10 ^ 8))
   \<and> (x \<in> set a \<and> y \<in> set a \<and> x \<noteq> y \<longrightarrow>
        0 < np_std (standardize a) \<and> np_std (standardize a) < 1
      \<and> 1 - np_std (standardize a) = (1 / 10 ^ 8) / (np_std a + 1 / 10 ^ 8))"
proof (intro conjI impI)
  show "estimate_advantage ext self obs rewards q_values terminals =
        (case raw_advantage ext self obs rewards q_values terminals of
           Inl e \<Rightarrow> Inl e | Inr a \<Rightarrow> Inr (standardize a))"
    if "normalize_advantages self"
    using that by (simp add: estimate_advantage_def split: sum.splits)
  show "standardize a = map (\<lambda>x. (x - np_mean a) / (np_std a + 1 / 10 ^ 8)) a"
    by (simp add: standardize_def Let_def)
  show "np_mean (standardize a) = 0" if "a \<noteq> []"
    using that by (rule np_mean_standardize)
  show "np_std (standardize a) = np_std a / (np_std a + 1 / 10 ^ 8)" if "a \<noteq> []"
    using that by (rule np_std_standardize)
  assume xy: "x \<in> set a \<and> y \<in> set a \<and> x \<noteq> y"
  then have ne: "a \<noteq> []" by auto
  from xy have pos: "0 < np_std a" using np_std_pos [of x a y] by blast
  note eq = np_std_standardize [OF ne]
  show "0 < np_std (standardize a)" using pos by (simp add: eq)
  show "np_std (standardize a) < 1" using pos by (simp add: eq)
  show "1 - np_std (standardize a) = (1 / 10 ^ 8) / (np_std a + 1 / 10 ^ 8)"
    using pos unfolding eq by (simp add: field_simps)
qed

theorem standardization_after_every_mode_witness:
  "normalize_advantages (demo_gae_agent\<lparr>normalize_advantages := True\<rparr>)
   \<and> estimate_advantage demo_ext (demo_gae_agent\<lparr>normalize_advantages := True\<rparr>)
        [2, 4, 1] [1, 2, 3] [0, 0, 0] [0, 1, 0] = Inr (standardize [1 / 2, - 2, 2])
   \<and> (1::real) \<in> set [1, 3] \<and> (3::real) \<in> set [1, 3] \<and> (1::real) \<noteq> 3
   \<and> np_mean (standardize [1, 3]) = 0
   \<and> np_std (standardize [1, 3]) = 1 / (1 + 1 / 10 ^ 8)
   \<and> 1 - np_std (standardize [1, 3]) = (1 / 10 ^ 8) / (1 + 1 / 10 ^ 8)"
proof -
  let ?self = "demo_gae_agent\<lparr>normalize_advantages := True\<rparr>"
  have n: "normalize_advantages ?self" by simp
  have r: "raw_advantage demo_ext ?self [2, 4, 1] [1, 2, 3] [0, 0, 0] [0, 1, 0]
             = Inr [1 / 2, - 2, 2]"
    by code_simp
  have m: "(1::real) \<in> set [1, 3] \<and> (3::real) \<in> set [1, 3] \<and> (1::real) \<noteq> 3" by simp
  have ne: "[1, 3 :: real] \<noteq> []" by simp
  note T = standardization_after_every_mode [where self = ?self and ext = demo_ext
      and obs = "[2, 4, 1]" and rewards = "[1, 2, 3]" and q_values = "[0, 0, 0]"
      and terminals = "[0, 1, 0]" and a = "[1, 3]" and x = 1 and y = 3]
  from T n r have "estimate_advantage demo_ext ?self [2, 4, 1] [1, 2, 3] [0, 0, 0] [0, 1, 0]
      = Inr (standardize [1 / 2, - 2, 2])"
    by simp
  moreover from T ne have "np_mean (standardize [1, 3]) = 0"
    and "np_std (standardize [1, 3]) = np_std [1, 3] / (np_std [1, 3] + 1 / 10 ^ 8)"
    by blast+
  moreover from T m have "1 - np_std (standardize [1, 3]) = (1 / 10 ^ 8) / (np_std [1, 3] + 1 / 10 ^ 8)"
    by blast
  ultimately show ?thesis using n m by (simp add: np_std_one_three)
qed

text \<open>
  The claim C8 as stated fails: the raw advantages \<open>[0, 2e-8]\<close> are not all equal, and
  after normalization the batch is \<open>[-1/2, 1/2]\<close>, with standard deviation \<open>1/2\<close>.
\<close>

theorem standardized_std_far_from_one:
  "estimate_advantage demo_ext (demo_agent\<lparr>normalize_advantages := True\<rparr>)
      [1, 2] [0, 0] [0, 2 / 10 ^ 8] [0, 1] = Inr [- 1 / 2, 1 / 2]
   \<and> (0::real) \<noteq> 2 / 10 ^ 8
   \<and> np_std [- 1 / 2, 1 / 2] = 1 / 2"
proof -
  have "raw_advantage demo_ext (demo_agent\<lparr>normalize_advantages := True\<rparr>)
      [1, 2] [0, 0] [0, 2 / 10 ^ 8] [0, 1] = Inr [0, 2 / 10 ^ 8]"
    by (simp add: raw_advantage_def demo_agent_def)
  then have "estimate_advantage demo_ext (demo_agent\<lparr>normalize_advantages := True\<rparr>)
      [1, 2] [0, 0] [0, 2 / 10 ^ 8] [0, 1] = Inr [- 1 / 2, 1 / 2]"
    by (simp only: estimate_advantage_def sum.case standardize_pair) simp
  then show ?thesis by (simp only: np_std_half) simp
qed

section \<open>Properties of the train step and of construction\<close>


lemma length_concat_q_vals:
  "length (concat (calculate_q_vals self rewards)) = length (concat rewards)"
proof -
  have "map length (calculate_q_vals self rewards) = map length rewards"
    by (simp add: calculate_q_vals_def discounted_return_eq discounted_reward_to_go_eq)
  then show ?thesis by (simp add: length_concat)
qed

lemma update_flat:
  assumes "obs \<noteq> []" and "actions \<noteq> []" and "rewards \<noteq> []" and "terminals \<noteq> []"
  shows "update ext self obs actions rewards terminals =
     (case estimate_advantage ext self (concat obs) (concat rewards)
             (concat (calculate_q_vals self rewards)) (concat terminals) of
        Inl e \<Rightarrow> (Inl e, self, [])
      | Inr advantages \<Rightarrow>
         (let pu = policy_update ext (actor self) (concat obs) (concat actions) advantages;
              self' = self\<lparr>actor := snd pu\<rparr>;
              info = [''actor_info'' \<mapsto> fst pu];
              trace = [PolicyUpdate (concat obs) (concat actions) advantages]
          in case critic self of
               None \<Rightarrow> (Inr info, self', trace)
             | Some c \<Rightarrow>
                (case baseline_gradient_steps self of
                   None \<Rightarrow> (Inl TypeError, self', trace)
                 | Some k \<Rightarrow>
                    (case (critic_iteration ext (concat obs)
                             (concat (calculate_q_vals self rewards)) ^^ nat k)
                            (c, Map.empty, info, trace) of
                       (c', critic_info, info', trace') \<Rightarrow>
                         (Inr (info' ++ critic_info), self'\<lparr>critic := Some c'\<rparr>, trace')))))"
proof -
  have "calculate_q_vals self rewards \<noteq> []"
    using assms(3) by (simp add: calculate_q_vals_def)
  then show ?thesis
    using assms
    by (simp add: update_def concatenate_def Let_def split: sum.splits prod.splits option.splits)
qed




lemma demo_gae_fields:
  "critic demo_gae_agent = Some 0" "baseline_gradient_steps demo_gae_agent = Some 2"
  "gae_lambda demo_gae_agent = Some (1 / 2)" "\<not> normalize_advantages demo_gae_agent"
  "actor demo_gae_agent = 0"
  by (simp_all add: demo_gae_agent_def demo_agent_def)




lemma raw_advantage_shape_mismatch:
  assumes "critic self = Some c"
    and "shape (squeeze (ValueCritic_forward ext c obs)) \<noteq> [length q_values]"
  shows "raw_advantage ext self obs rewards q_values terminals = Inl AssertionError"
  using assms by (simp add: raw_advantage_def Let_def)

text \<open>
  Claim C5. With a baseline configured, if the baseline's predictions on the flattened
  observations have a shape other than that of the flattened Q-values, the advantage
  estimator raises AssertionError and so does \<open>update\<close>, leaving the agent as it was
  and having made no parameter update.
\<close>

theorem shape_mismatch_aborts:
  assumes "critic self = Some c"
    and "obs \<noteq> []" and "actions \<noteq> []" and "rewards \<noteq> []" and "terminals \<noteq> []"
    and "shape (squeeze (ValueCritic_forward ext c (concat obs)))
           \<noteq> [length (concat (calculate_q_vals self rewards))]"
  shows "estimate_advantage ext self (concat obs) (concat rewards)
           (concat (calculate_q_vals self rewards)) (concat terminals) = Inl AssertionError
       \<and> update ext self obs actions rewards terminals = (Inl AssertionError, self, [])"
proof -
  have "estimate_advantage ext self (concat obs) (concat rewards)
           (concat (calculate_q_vals self rewards)) (concat terminals) = Inl AssertionError"
    by (simp add: estimate_advantage_def raw_advantage_shape_mismatch [OF assms(1,6)])
  then show ?thesis
    by (simp add: update_flat [OF assms(2-5)])
qed

theorem shape_mismatch_aborts_witness:
  "critic demo_gae_agent = Some 0
   \<and> shape (squeeze (ValueCritic_forward demo_ext 0 (concat [[2, 4], [1]])))
        \<noteq> [length (concat (calculate_q_vals demo_gae_agent [[1, 2]]))]
   \<and> update demo_ext demo_gae_agent [[2, 4], [1]] [[0, 0], [0]] [[1, 2]] [[0, 1], [0]]
        = (Inl AssertionError, demo_gae_agent, [])
   \<and> shape (squeeze (ValueCritic_forward demo_ext 0 (concat [[2]])))
        \<noteq> [length (concat (calculate_q_vals demo_gae_agent [[1]]))]
   \<and> update demo_ext demo_gae_agent [[2]] [[0]] [[1]] [[1]]
        = (Inl AssertionError, demo_gae_agent, [])"
proof -
  have c: "critic demo_gae_agent = Some 0" by (rule demo_gae_fields)
  have s1: "shape (squeeze (ValueCritic_forward demo_ext 0 (concat [[2, 4], [1]])))
        \<noteq> [length (concat (calculate_q_vals demo_gae_agent [[1, 2]]))]"
    by (simp add: shape_forward length_concat_q_vals)
  have s2: "shape (squeeze (ValueCritic_forward demo_ext 0 (concat [[2]])))
        \<noteq> [length (concat (calculate_q_vals demo_gae_agent [[1]]))]"
    by (simp add: shape_forward length_concat_q_vals)
  have ne: "[[2, 4], [1 :: real]] \<noteq> []" "[[0, 0], [0 :: nat]] \<noteq> []" "[[1, 2 :: real]] \<noteq> []"
    "[[0, 1], [0 :: real]] \<noteq> []" "[[2 :: real]] \<noteq> []" "[[0 :: nat]] \<noteq> []"
    "[[1 :: real]] \<noteq> []"
    by simp_all
  from shape_mismatch_aborts [OF c ne(1) ne(2) ne(3) ne(4) s1]
       shape_mismatch_aborts [OF c ne(5) ne(6) ne(7) ne(7) s2] c s1 s2
  show ?thesis by blast
qed

text \<open>
  The claim C7 as stated fails: without a baseline, a trajectory with two observations,
  actions and rewards but one terminal marker is flattened and the policy is updated.
\<close>

theorem mismatched_terminals_accepted:
  "length ([[1]] ! 0 :: real list) \<noteq> length ([[1, 2]] ! 0 :: real list)
   \<and> \<not> isl (fst (update demo_ext demo_agent [[1, 2]] [[0, 0]] [[1, 2]] [[1]]))
   \<and> snd (snd (update demo_ext demo_agent [[1, 2]] [[0, 0]] [[1, 2]] [[1]]))
        = [PolicyUpdate [1, 2] [0, 0] [2, 2]]"
proof -
  have q: "concat (calculate_q_vals demo_agent [[1, 2]]) = [2, 2]" by code_simp
  have "estimate_advantage demo_ext demo_agent [1, 2] [1, 2] [2, 2] [1] = Inr [2, 2]"
    by (simp add: estimate_advantage_def raw_advantage_def demo_agent_def)
  then show ?thesis
    by (simp add: update_flat q Let_def) (simp add: demo_agent_def)
qed

text \<open>
  Claim C7, as amended. For non-empty lists of trajectories, \<open>update\<close> makes no check of
  the trajectories' lengths and flattens first: its outcome depends on the observations,
  actions and terminal markers only through their flattened arrays, however they are split
  into trajectories. Without a baseline the flattened arrays reach the policy's update
  unchecked. With a baseline the call fails with AssertionError, before any parameter
  update, when the numbers of observations and of rewards in the batch differ; in GAE mode
  it fails with AssertionError or IndexError, before any parameter update, when there are
  fewer terminal markers than observations.
\<close>

theorem update_length_checks:
  assumes "obs \<noteq> []" and "actions \<noteq> []" and "rewards \<noteq> []" and "terminals \<noteq> []"
  shows "(obs' \<noteq> [] \<and> actions' \<noteq> [] \<and> terminals' \<noteq> []
            \<and> concat obs' = concat obs \<and> concat actions' = concat actions
            \<and> concat terminals' = concat terminals \<longrightarrow>
            update ext self obs' actions' rewards terminals' =
            update ext self obs actions rewards terminals)
       \<and> (critic self = None \<longrightarrow>
            snd (snd (update ext self obs actions rewards terminals)) =
              [PolicyUpdate (concat obs) (concat actions)
                 (if normalize_advantages self
                  then standardize (concat (calculate_q_vals self rewards))
                  else concat (calculate_q_vals self rewards))])
       \<and> (critic self \<noteq> None \<and> length (concat obs) \<noteq> length (concat rewards) \<longrightarrow>
            update ext self obs actions rewards terminals = (Inl AssertionError, self, []))
       \<and> (critic self \<noteq> None \<and> gae_lambda self \<noteq> None
            \<and> length (concat terminals) < length (concat obs) \<longrightarrow>
            update ext self obs actions rewards terminals = (Inl AssertionError, self, [])
          \<or> update ext self obs actions rewards terminals = (Inl IndexError, self, []))"
proof (intro conjI impI)
  note flat = update_flat [OF assms, of ext self]
  show "update ext self obs' actions' rewards terminals' =
        update ext self obs actions rewards terminals"
    if h: "obs' \<noteq> [] \<and> actions' \<noteq> [] \<and> terminals' \<noteq> []
            \<and> concat obs' = concat obs \<and> concat actions' = concat actions
            \<and> concat terminals' = concat terminals"
  proof -
    from h have ne': "obs' \<noteq> []" "actions' \<noteq> []" "terminals' \<noteq> []" by simp_all
    from h have eqs: "concat obs' = concat obs" "concat actions' = concat actions"
      "concat terminals' = concat terminals" by simp_all
    show ?thesis
      unfolding flat update_flat [OF ne'(1) ne'(2) assms(3) ne'(3), of ext self] eqs
      by (rule refl)
  qed
  show "snd (snd (update ext self obs actions rewards terminals)) =
              [PolicyUpdate (concat obs) (concat actions)
                 (if normalize_advantages self
                  then standardize (concat (calculate_q_vals self rewards))
                  else concat (calculate_q_vals self rewards))]" if "critic self = None"
    using that unfolding flat
    by (simp add: estimate_advantage_def raw_advantage_def Let_def)
  show "update ext self obs actions rewards terminals = (Inl AssertionError, self, [])"
    if h: "critic self \<noteq> None \<and> length (concat obs) \<noteq> length (concat rewards)"
  proof -
    from h obtain c where c: "critic self = Some c" by auto
    have "shape (squeeze (ValueCritic_forward ext c (concat obs)))
            \<noteq> [length (concat (calculate_q_vals self rewards))]"
      using h by (simp add: shape_forward length_concat_q_vals)
    then show ?thesis
      unfolding flat
      by (simp add: estimate_advantage_def raw_advantage_shape_mismatch [OF c])
  qed
  show "update ext self obs actions rewards terminals = (Inl AssertionError, self, [])
          \<or> update ext self obs actions rewards terminals = (Inl IndexError, self, [])"
    if h: "critic self \<noteq> None \<and> gae_lambda self \<noteq> None
            \<and> length (concat terminals) < length (concat obs)"
  proof -
    from h obtain c lam where c: "critic self = Some c" and l: "gae_lambda self = Some lam"
      by auto
    show ?thesis
      unfolding flat using h
      by (simp add: estimate_advantage_def raw_advantage_gae [OF c l] length_concat_q_vals)
  qed
qed

theorem update_length_checks_witness:
  "update demo_ext demo_gae_agent [[2], [4, 1]] [[0, 0, 0]] [[1, 2], [3]] [[0], [1], [0]]
     = update demo_ext demo_gae_agent [[2, 4], [1]] [[0, 0], [0]] [[1, 2], [3]] [[0, 1], [0]]
   \<and> snd (snd (update demo_ext demo_agent [[1, 2]] [[0, 0]] [[1, 2], [5]] [[1]]))
     = [PolicyUpdate [1, 2] [0, 0] [2, 2, 5]]
   \<and> update demo_ext demo_gae_agent [[2, 4], [1]] [[0, 0], [0]] [[1, 2]] [[0, 1], [0]]
        = (Inl AssertionError, demo_gae_agent, [])
   \<and> update demo_ext demo_gae_agent [[2, 4], [1]] [[0, 0], [0]] [[1, 2], [3]] [[0, 1]]
        = (Inl IndexError, demo_gae_agent, [])
   \<and> update demo_ext demo_gae_agent [[2]] [[0]] [[1]] [[]]
        = (Inl AssertionError, demo_gae_agent, [])"
proof -
  have ne: "[[1, 2 :: real]] \<noteq> []" "[[0, 0 :: nat]] \<noteq> []" "[[1, 2], [5 :: real]] \<noteq> []"
    "[[1 :: real]] \<noteq> []" "[[2, 4], [1 :: real]] \<noteq> []" "[[0, 0], [0 :: nat]] \<noteq> []"
    "[[0, 1], [0 :: real]] \<noteq> []" "[[1, 2], [3 :: real]] \<noteq> []" "[[0, 1 :: real]] \<noteq> []"
    "[[2 :: real]] \<noteq> []" "[[0 :: nat]] \<noteq> []" "[[] :: real list] \<noteq> []"
    by simp_all
  have n: "critic demo_agent = None" "\<not> normalize_advantages demo_agent"
    by (simp_all add: demo_agent_def)
  have q: "concat (calculate_q_vals demo_agent [[1, 2], [5]]) = [2, 2, 5]" by code_simp
  have c: "critic demo_gae_agent \<noteq> None" "gae_lambda demo_gae_agent \<noteq> None"
    by (simp_all add: demo_gae_fields)
  from update_length_checks [OF ne(5) ne(6) ne(8) ne(7), where obs' = "[[2], [4, 1]]"
         and actions' = "[[0, 0, 0]]" and terminals' = "[[0], [1], [0]]" and ext = demo_ext
         and self = demo_gae_agent]
  have 0: "update demo_ext demo_gae_agent [[2], [4, 1]] [[0, 0, 0]] [[1, 2], [3]] [[0], [1], [0]]
     = update demo_ext demo_gae_agent [[2, 4], [1]] [[0, 0], [0]] [[1, 2], [3]] [[0, 1], [0]]"
    by simp
  from update_length_checks [OF ne(1) ne(2) ne(3) ne(4), where obs' = "[]" and actions' = "[]"
         and terminals' = "[]" and ext = demo_ext and self = demo_agent] n
  have 1: "snd (snd (update demo_ext demo_agent [[1, 2]] [[0, 0]] [[1, 2], [5]] [[1]]))
     = [PolicyUpdate [1, 2] [0, 0] [2, 2, 5]]"
    by (simp add: q)
  from update_length_checks [OF ne(5) ne(6) ne(1) ne(7), where obs' = "[]" and actions' = "[]"
         and terminals' = "[]" and ext = demo_ext and self = demo_gae_agent] c
  have 2: "update demo_ext demo_gae_agent [[2, 4], [1]] [[0, 0], [0]] [[1, 2]] [[0, 1], [0]]
        = (Inl AssertionError, demo_gae_agent, [])"
    by simp
  from update_length_checks [OF ne(5) ne(6) ne(8) ne(9), where obs' = "[]" and actions' = "[]"
         and terminals' = "[]" and ext = demo_ext and self = demo_gae_agent] c
  have "update demo_ext demo_gae_agent [[2, 4], [1]] [[0, 0], [0]] [[1, 2], [3]] [[0, 1]]
        = (Inl AssertionError, demo_gae_agent, [])
      \<or> update demo_ext demo_gae_agent [[2, 4], [1]] [[0, 0], [0]] [[1, 2], [3]] [[0, 1]]
        = (Inl IndexError, demo_gae_agent, [])"
    by simp
  moreover have "raw_advantage demo_ext demo_gae_agent (concat [[2, 4], [1]]) (concat [[1, 2], [3]])
       (concat (calculate_q_vals demo_gae_agent [[1, 2], [3]])) (concat [[0, 1]])
      = Inl IndexError"
    by code_simp
  then have "update demo_ext demo_gae_agent [[2, 4], [1]] [[0, 0], [0]] [[1, 2], [3]] [[0, 1]]
        \<noteq> (Inl AssertionError, demo_gae_agent, [])"
    by (simp add: update_flat estimate_advantage_def)
  ultimately have 3: "update demo_ext demo_gae_agent [[2, 4], [1]] [[0, 0], [0]] [[1, 2], [3]] [[0, 1]]
        = (Inl IndexError, demo_gae_agent, [])"
    by blast
  from update_length_checks [OF ne(10) ne(11) ne(4) ne(12), where obs' = "[]" and actions' = "[]"
         and terminals' = "[]" and ext = demo_ext and self = demo_gae_agent] c
  have "update demo_ext demo_gae_agent [[2]] [[0]] [[1]] [[]]
        = (Inl AssertionError, demo_gae_agent, [])
      \<or> update demo_ext demo_gae_agent [[2]] [[0]] [[1]] [[]]
        = (Inl IndexError, demo_gae_agent, [])"
    by simp
  moreover have "raw_advantage demo_ext demo_gae_agent (concat [[2]]) (concat [[1]])
       (concat (calculate_q_vals demo_gae_agent [[1]])) (concat [[]])
      = Inl AssertionError"
    by code_simp
  then have "update demo_ext demo_gae_agent [[2]] [[0]] [[1]] [[]]
        \<noteq> (Inl IndexError, demo_gae_agent, [])"
    by (simp add: update_flat estimate_advantage_def)
  ultimately have 4: "update demo_ext demo_gae_agent [[2]] [[0]] [[1]] [[]]
        = (Inl AssertionError, demo_gae_agent, [])"
    by blast
  show ?thesis by (intro conjI 0 1 2 3 4)
qed




text \<open>
  Claim C1 fails on a batch of exactly one observation. \<open>ValueCritic.forward\<close> and
  \<open>_estimate_advantage\<close> both squeeze the prediction of shape \<open>(1, 1)\<close>, which leaves
  the shape \<open>()\<close>; this differs from the shape \<open>(1,)\<close> of the Q-values, so the assertion
  fails and no advantage is returned, where the recursion gives \<open>r 0 - V 0\<close>: for the
  reward 1, the prediction 2 and the terminal marker 1 this is \<open>- 1\<close>.
\<close>

theorem gae_one_observation_raises:
  "estimate_advantage demo_ext demo_gae_agent [2] [1] [1] [1] = Inl AssertionError
   \<and> update demo_ext demo_gae_agent [[2]] [[0]] [[1]] [[1]]
       = (Inl AssertionError, demo_gae_agent, [])
   \<and> data (squeeze (ValueCritic_forward demo_ext 0 [2])) = [2]
   \<and> gae_recursion (1 / 2) (1 / 2) 1 [1] [2] [1] 0 = - 1"
proof -
  have c: "critic demo_gae_agent = Some 0" by (rule demo_gae_fields)
  have s: "shape (squeeze (ValueCritic_forward demo_ext 0 [2])) \<noteq> [length [1 :: real]]"
    by (simp add: shape_forward)
  have e: "estimate_advantage demo_ext demo_gae_agent [2] [1] [1] [1] = Inl AssertionError"
    by (simp add: estimate_advantage_def raw_advantage_shape_mismatch [OF c s])
  have q: "concat (calculate_q_vals demo_gae_agent [[1]]) = [1]" by code_simp
  have u: "update demo_ext demo_gae_agent [[2]] [[0]] [[1]] [[1]]
       = (Inl AssertionError, demo_gae_agent, [])"
    by (simp add: update_flat q e)
  have v: "data (squeeze (ValueCritic_forward demo_ext 0 [2])) = [2]"
    by (simp add: values_forward demo_ext_def)
  have g: "gae_recursion (1 / 2) (1 / 2) 1 [1] [2] [1] 0 = - 1"
    by (simp add: gae_recursion.simps Let_def)
  from e u v g show ?thesis by blast
qed

end
